theory Spec2Isabelle
  imports Main
begin

section \<open>The browser-automation interface the scripts consume\<close>

text \<open>
  The six scripts under \<^verbatim>\<open>verification/\<close> are straight-line Python programs that drive a
  browser through Playwright's synchronous API. Playwright, the browser and the web
  application are not part of the repository: they are a parameter of the model, a
  \<open>driver\<close> that answers each API call with a result (a value or a raised exception),
  the console and page-error events it delivers while the call is in flight, and the next
  state of the outside world. What the scripts themselves decide (the order of the calls,
  \<^verbatim>\<open>try\<close>/\<^verbatim>\<open>except\<close>/\<^verbatim>\<open>finally\<close>, the listeners, what is printed, the paths of the
  screenshots) is modelled as written.
\<close>

datatype exn =
    Error string            \<comment> \<open>\<^verbatim>\<open>playwright.sync_api.Error\<close>, a subclass of \<^verbatim>\<open>Exception\<close>\<close>
  | TimeoutError string     \<comment> \<open>\<^verbatim>\<open>playwright.sync_api.TimeoutError\<close>, a subclass of \<^verbatim>\<open>Error\<close>\<close>
  | OSError string          \<comment> \<open>raised when a file cannot be written; a subclass of \<^verbatim>\<open>Exception\<close>\<close>
  | KeyboardInterrupt       \<comment> \<open>a \<^verbatim>\<open>BaseException\<close> that is not an \<^verbatim>\<open>Exception\<close>\<close>
  | SystemExit int          \<comment> \<open>raised by \<^verbatim>\<open>sys.exit(n)\<close>; not an \<^verbatim>\<open>Exception\<close> either\<close>

fun is_Exception :: "exn \<Rightarrow> bool" where
  "is_Exception (Error m) = True"
| "is_Exception (TimeoutError m) = True"
| "is_Exception (OSError m) = True"
| "is_Exception KeyboardInterrupt = False"
| "is_Exception (SystemExit n) = False"

fun str_exn :: "exn \<Rightarrow> string" where
  "str_exn (Error m) = m"
| "str_exn (TimeoutError m) = m"
| "str_exn (OSError m) = m"
| "str_exn KeyboardInterrupt = []"
| "str_exn (SystemExit n) = []"   \<comment> \<open>never formatted: no handler catches it\<close>

datatype val = VNone | VBool bool | VStr string | VBytes string

text \<open>Python's \<^verbatim>\<open>str()\<close>, as an f-string applies it.\<close>

fun str_val :: "val \<Rightarrow> string" where
  "str_val VNone = ''None''"
| "str_val (VBool b) = (if b then ''True'' else ''False'')"
| "str_val (VStr s) = s"
| "str_val (VBytes b) = b"

datatype event =
    Console string string   \<comment> \<open>a console message: \<^verbatim>\<open>msg.type\<close>, \<^verbatim>\<open>msg.text\<close>\<close>
  | PageError string        \<comment> \<open>an uncaught exception in the page: \<^verbatim>\<open>str(exc)\<close>\<close>

fun event_name :: "event \<Rightarrow> string" where
  "event_name (Console ty text) = ''console''"
| "event_name (PageError m) = ''pageerror''"

datatype call =
    SyncPlaywrightStart             \<comment> \<open>\<^verbatim>\<open>sync_playwright().__enter__()\<close>\<close>
  | SyncPlaywrightStop              \<comment> \<open>\<^verbatim>\<open>sync_playwright().__exit__(...)\<close>\<close>
  | Launch "bool option"            \<comment> \<open>\<^verbatim>\<open>p.chromium.launch(headless=...)\<close>\<close>
  | NewContext                      \<comment> \<open>\<^verbatim>\<open>browser.new_context()\<close>\<close>
  | NewPage                         \<comment> \<open>\<^verbatim>\<open>browser.new_page()\<close>, \<^verbatim>\<open>context.new_page()\<close>\<close>
  | Goto string                     \<comment> \<open>\<^verbatim>\<open>page.goto(url)\<close>\<close>
  | WaitForSelector string "nat option"  \<comment> \<open>\<^verbatim>\<open>page.wait_for_selector(sel, timeout=...)\<close>\<close>
  | WaitForTimeout nat              \<comment> \<open>\<^verbatim>\<open>page.wait_for_timeout(ms)\<close>\<close>
  | Click string bool               \<comment> \<open>\<^verbatim>\<open>page.click(sel)\<close>, \<^verbatim>\<open>page.locator(sel).click(force=...)\<close>\<close>
  | IsVisible string                \<comment> \<open>\<^verbatim>\<open>page.is_visible(sel)\<close>\<close>
  | Evaluate string                 \<comment> \<open>\<^verbatim>\<open>page.evaluate(source)\<close>\<close>
  | Screenshot string               \<comment> \<open>\<^verbatim>\<open>page.screenshot(path=...)\<close>\<close>
  | Content                         \<comment> \<open>\<^verbatim>\<open>page.content()\<close>\<close>
  | InnerText string                \<comment> \<open>\<^verbatim>\<open>page.locator(sel).inner_text()\<close>\<close>
  | KeyboardPress string            \<comment> \<open>\<^verbatim>\<open>page.keyboard.press(key)\<close>\<close>
  | BrowserClose                    \<comment> \<open>\<^verbatim>\<open>browser.close()\<close>\<close>
  | Sleep nat                       \<comment> \<open>\<^verbatim>\<open>time.sleep(seconds)\<close>: never reaches the driver\<close>

type_synonym 'w driver = "call \<Rightarrow> 'w \<Rightarrow> (exn + val) \<times> event list \<times> 'w"

datatype callback =
    AppendIfError   \<comment> \<open>\<^verbatim>\<open>lambda msg: errors.append(msg.text) if msg.type == "error" else None\<close>\<close>
  | AppendExc       \<comment> \<open>\<^verbatim>\<open>lambda exc: errors.append(str(exc))\<close>\<close>
  | PrintConsole    \<comment> \<open>\<^verbatim>\<open>lambda msg: print(f"Console: {msg.text}")\<close>\<close>

section \<open>The state of one run\<close>

text \<open>
  \<open>world\<close> is the driver's state, \<open>listeners\<close> the callbacks registered with
  \<^verbatim>\<open>page.on\<close>, \<open>errors\<close> the list of that name in \<^verbatim>\<open>verify_load\<close>, \<open>stdout\<close>
  the lines printed and \<open>files\<close> the file system. \<open>trace\<close> and \<open>emitted\<close> are
  ghost fields: every call attempted with its result, and every event the driver delivered.
\<close>

record 'w st =
  world :: 'w
  listeners :: "(string \<times> callback) list"
  errors :: "string list"
  stdout :: "string list"
  files :: "string \<Rightarrow> string option"
  trace :: "(call \<times> (exn + val)) list"
  emitted :: "event list"

type_synonym 'w prog = "'w st \<Rightarrow> (exn + val) \<times> 'w st"

definition init :: "'w \<Rightarrow> (string \<Rightarrow> string option) \<Rightarrow> 'w st" where
  "init w fs = \<lparr>world = w, listeners = [], errors = [], stdout = [], files = fs,
                 trace = [], emitted = []\<rparr>"

subsection \<open>Listeners\<close>

fun invoke :: "callback \<Rightarrow> event \<Rightarrow> 'w st \<Rightarrow> 'w st" where
  "invoke AppendIfError (Console ty text) s =
     (if ty = ''error'' then s\<lparr>errors := errors s @ [text]\<rparr> else s)"
| "invoke AppendExc (PageError m) s = s\<lparr>errors := errors s @ [m]\<rparr>"
| "invoke PrintConsole (Console ty text) s = s\<lparr>stdout := stdout s @ [''Console: '' @ text]\<rparr>"
| "invoke cb ev s = s"

definition dispatch :: "event \<Rightarrow> 'w st \<Rightarrow> 'w st" where
  "dispatch ev s =
     fold (\<lambda>(name, cb) s'. if name = event_name ev then invoke cb ev s' else s')
          (listeners s) s"

definition page_on :: "string \<Rightarrow> callback \<Rightarrow> 'w prog" where
  "page_on name cb s = (Inr VNone, s\<lparr>listeners := listeners s @ [(name, cb)]\<rparr>)"

subsection \<open>Calls\<close>

text \<open>
  A call is logged and the events the driver delivers during it go to the listeners in
  order. The driver's answer to \<open>Screenshot path\<close> is the outcome of the whole call
  \<^verbatim>\<open>page.screenshot(path=...)\<close>: Playwright obtains the image from the browser and then
  writes it to the path itself, and a write that fails makes the call raise (an
  \<^verbatim>\<open>OSError\<close>) with nothing written. So the answer \<open>Inr (VBytes img)\<close> means that the
  call returned, having written \<open>img\<close> to the path in place of what was there; under every
  other answer the files are as they were.
\<close>

fun write_file :: "call \<Rightarrow> (exn + val) \<Rightarrow> 'w st \<Rightarrow> 'w st" where
  "write_file (Screenshot path) (Inr (VBytes img)) s = s\<lparr>files := (files s)(path \<mapsto> img)\<rparr>"
| "write_file c r s = s"

definition api :: "'w driver \<Rightarrow> call \<Rightarrow> 'w prog" where
  "api drv c s =
     (case drv c (world s) of (r, evs, w') \<Rightarrow>
        (r, write_file c r
              (fold dispatch evs
                 (s\<lparr>world := w', trace := trace s @ [(c, r)], emitted := emitted s @ evs\<rparr>))))"

definition py_sleep :: "nat \<Rightarrow> 'w prog" where
  "py_sleep n s = (Inr VNone, s\<lparr>trace := trace s @ [(Sleep n, Inr VNone)]\<rparr>)"

definition py_print :: "string \<Rightarrow> 'w prog" where
  "py_print line s = (Inr VNone, s\<lparr>stdout := stdout s @ [line]\<rparr>)"

subsection \<open>Statements\<close>

definition skip :: "'w prog" where
  "skip s = (Inr VNone, s)"

definition raise :: "exn \<Rightarrow> 'w prog" where
  "raise e s = (Inl e, s)"

definition bind :: "'w prog \<Rightarrow> (val \<Rightarrow> 'w prog) \<Rightarrow> 'w prog" where
  "bind p f s = (case p s of (Inl e, s') \<Rightarrow> (Inl e, s') | (Inr v, s') \<Rightarrow> f v s')"

text \<open>A block of statements: in order, up to the first one that raises.\<close>

fun block :: "'w prog list \<Rightarrow> 'w prog" where
  "block [] s = (Inr VNone, s)"
| "block (p # ps) s = (case p s of (Inl e, s') \<Rightarrow> (Inl e, s') | (Inr v, s') \<Rightarrow> block ps s')"

text \<open>
  \<^verbatim>\<open>try: body finally: fin\<close>. The \<^verbatim>\<open>finally\<close> block runs however the body ends; an
  exception it raises replaces the body's outcome.
\<close>

definition try_finally :: "'w prog \<Rightarrow> 'w prog \<Rightarrow> 'w prog" where
  "try_finally body fin s =
     (case body s of (r, s') \<Rightarrow>
        (case fin s' of (Inl e, s'') \<Rightarrow> (Inl e, s'') | (Inr v, s'') \<Rightarrow> (r, s'')))"

text \<open>\<^verbatim>\<open>try: body except Exception as e: handler(e)\<close>.\<close>

definition try_except :: "'w prog \<Rightarrow> (exn \<Rightarrow> 'w prog) \<Rightarrow> 'w prog" where
  "try_except body handler s =
     (case body s of
        (Inl e, s') \<Rightarrow> if is_Exception e then handler e s' else (Inl e, s')
      | (Inr v, s') \<Rightarrow> (Inr v, s'))"

text \<open>\<^verbatim>\<open>with sync_playwright() as p: body\<close>.\<close>

definition with_sync_playwright :: "'w driver \<Rightarrow> 'w prog \<Rightarrow> 'w prog" where
  "with_sync_playwright drv body =
     bind (api drv SyncPlaywrightStart) (\<lambda>p. try_finally body (api drv SyncPlaywrightStop))"

text \<open>\<^verbatim>\<open>needle in haystack\<close> on strings.\<close>

fun str_in :: "string \<Rightarrow> string \<Rightarrow> bool" where
  "str_in needle [] = (needle = [])"
| "str_in needle (c # cs) = (take (length needle) (c # cs) = needle \<or> str_in needle cs)"

section \<open>The scripts\<close>

subsection \<open>\<^verbatim>\<open>verify_asteroid.py\<close>\<close>

definition verify_asteroids :: "'w driver \<Rightarrow> 'w prog" where
  "verify_asteroids drv = block [
     api drv (Goto ''http://localhost:4173''),
     api drv (WaitForSelector ''canvas'' None),
     api drv (Click ''#instructions'' False),
     api drv (WaitForTimeout 2000),
     api drv (Screenshot ''verification/level1.png''),
     py_print ''Screenshot taken.'']"

definition asteroid_main :: "'w driver \<Rightarrow> 'w prog" where
  "asteroid_main drv =
     with_sync_playwright drv (block [
       api drv (Launch (Some True)),
       api drv NewPage,
       try_finally (verify_asteroids drv) (api drv BrowserClose)])"

subsection \<open>\<^verbatim>\<open>verify_horizon.py\<close>\<close>

definition horizon_js :: string where
  "horizon_js = ''document.getElementById('instructions').click()''"

text \<open>Lines 18 to 31, after \<^verbatim>\<open>visible = page.is_visible("#instructions")\<close>.\<close>

definition verify_horizon_rest :: "'w driver \<Rightarrow> val \<Rightarrow> 'w prog" where
  "verify_horizon_rest drv visible = block [
     py_print (''Instructions visible: '' @ str_val visible),
     py_print ''Clicking instructions via JS...'',
     api drv (Evaluate horizon_js),
     api drv (WaitForTimeout 2000),
     py_print ''Taking screenshot...'',
     api drv (Screenshot ''verification/level3_horizon.png''),
     py_print ''Level 3 screenshot taken'']"

definition verify_horizon :: "'w driver \<Rightarrow> 'w prog" where
  "verify_horizon drv = block [
     page_on ''console'' PrintConsole,
     api drv (Goto ''http://localhost:4173''),
     api drv (WaitForSelector ''#glCanvas'' None),
     api drv (WaitForTimeout 4000),
     bind (api drv (IsVisible ''#instructions'')) (verify_horizon_rest drv)]"

text \<open>Lines 37 to 42: the \<^verbatim>\<open>try\<close>/\<^verbatim>\<open>except\<close>/\<^verbatim>\<open>finally\<close> statement.\<close>

definition horizon_session :: "'w driver \<Rightarrow> 'w prog" where
  "horizon_session drv =
     try_finally
       (try_except (verify_horizon drv) (\<lambda>e. py_print (''Error: '' @ str_exn e)))
       (api drv BrowserClose)"

definition horizon_main :: "'w driver \<Rightarrow> 'w prog" where
  "horizon_main drv =
     with_sync_playwright drv (block [
       api drv (Launch None),
       api drv NewPage,
       horizon_session drv])"

subsection \<open>\<^verbatim>\<open>verify_level_2.py\<close>\<close>

definition verify_level_2 :: "'w driver \<Rightarrow> 'w prog" where
  "verify_level_2 drv = block [
     api drv (Goto ''http://localhost:4173''),
     api drv (WaitForSelector ''#instructions'' None),
     api drv (Click ''#instructions'' False),
     api drv (WaitForTimeout 3000),
     api drv (Screenshot ''verification/level2_asteroids.png''),
     bind (api drv (InnerText ''#level-display''))
       (\<lambda>level_text. py_print (''Level Text: '' @ str_val level_text))]"

definition level_2_main :: "'w driver \<Rightarrow> 'w prog" where
  "level_2_main drv =
     with_sync_playwright drv (block [
       api drv (Launch (Some True)),
       api drv NewPage,
       try_finally (verify_level_2 drv) (api drv BrowserClose)])"

subsection \<open>\<^verbatim>\<open>verify_load.py\<close>\<close>

text \<open>Lines 35 to 41: the report of the collected errors.\<close>

definition report_errors :: "'w prog" where
  "report_errors s =
     (if errors s \<noteq> []
      then block (py_print ''Console Errors found:'' #
                  map (\<lambda>e. py_print (''- '' @ e)) (errors s)) s
      else py_print ''No console errors.'' s)"

text \<open>Lines 16 to 41: the body of the \<^verbatim>\<open>try\<close>.\<close>

definition verify_load_try :: "'w driver \<Rightarrow> 'w prog" where
  "verify_load_try drv = block [
     py_print ''Navigating to app...'',
     api drv (Goto ''http://localhost:4173''),
     py_print ''Waiting for canvas...'',
     api drv (WaitForSelector ''#glCanvas'' (Some 10000)),
     py_sleep 2,
     py_print ''Taking screenshot...'',
     api drv (Screenshot ''verification/screenshot.png''),
     bind (api drv Content) (\<lambda>content. block [
       (if str_in ''WebGPU not supported'' (str_val content)
        then py_print ''WebGPU not supported warning found (Expected in this env).''
        else skip),
       report_errors])]"

text \<open>Lines 43 to 45: the \<^verbatim>\<open>except Exception as e\<close> handler.\<close>

definition verify_load_except :: "exn \<Rightarrow> 'w prog" where
  "verify_load_except e = block [
     py_print (''Verification failed: '' @ str_exn e),
     raise (SystemExit 1)]"

text \<open>Lines 15 to 47: the \<^verbatim>\<open>try\<close>/\<^verbatim>\<open>except\<close>/\<^verbatim>\<open>finally\<close> statement.\<close>

definition verify_load_guarded :: "'w driver \<Rightarrow> 'w prog" where
  "verify_load_guarded drv =
     try_finally
       (try_except (verify_load_try drv) verify_load_except)
       (api drv BrowserClose)"

text \<open>Lines 11 to 47: from \<^verbatim>\<open>errors = []\<close> to the end of the \<^verbatim>\<open>finally\<close>.\<close>

definition verify_load_page :: "'w driver \<Rightarrow> 'w prog" where
  "verify_load_page drv = block [
     (\<lambda>s. (Inr VNone, s\<lparr>errors := []\<rparr>)),
     page_on ''console'' AppendIfError,
     page_on ''pageerror'' AppendExc,
     verify_load_guarded drv]"

definition verify_load :: "'w driver \<Rightarrow> 'w prog" where
  "verify_load drv =
     with_sync_playwright drv (block [
       api drv (Launch (Some True)),
       api drv NewPage,
       verify_load_page drv])"

subsection \<open>\<^verbatim>\<open>verify_reentry.py\<close>\<close>

definition verify_reentry :: "'w driver \<Rightarrow> 'w prog" where
  "verify_reentry drv =
     with_sync_playwright drv (block [
       api drv (Launch (Some True)),
       api drv NewContext,
       api drv NewPage,
       api drv (Goto ''http://localhost:4173''),
       api drv (WaitForTimeout 5000),
       api drv (Click ''#instructions'' True),
       api drv (WaitForTimeout 1000),
       api drv (KeyboardPress ''h''),
       api drv (WaitForTimeout 2000),
       api drv (Screenshot ''verification/reentry_effect.png''),
       api drv BrowserClose])"

subsection \<open>\<^verbatim>\<open>verify_waterfall.py\<close>\<close>

text \<open>
  The script passed to \<^verbatim>\<open>page.evaluate\<close> at lines 27 to 37 consists of comments only;
  its text is abbreviated here, nothing depends on it.
\<close>

definition waterfall_js :: string where
  "waterfall_js = ''// Assuming 'levelManager' is not globally exposed, we might be stuck. ...''"

text \<open>Lines 12 to 41: the body of the \<^verbatim>\<open>try\<close>.\<close>

definition run_try :: "'w driver \<Rightarrow> 'w prog" where
  "run_try drv = block [
     api drv (Goto ''http://localhost:4173''),
     api drv (WaitForSelector ''#glCanvas'' None),
     api drv (Click ''#instructions'' False),
     api drv (Evaluate waterfall_js),
     py_sleep 2,
     api drv (Screenshot ''verification/level1.png''),
     py_print ''Screenshot Level 1 taken'']"

text \<open>Lines 11 to 49: the \<^verbatim>\<open>try\<close>/\<^verbatim>\<open>except\<close> statement and the \<^verbatim>\<open>browser.close()\<close> after it.\<close>

definition run_page :: "'w driver \<Rightarrow> 'w prog" where
  "run_page drv = block [
     try_except (run_try drv) (\<lambda>e. py_print (''Error: '' @ str_exn e)),
     api drv BrowserClose]"

definition run :: "'w driver \<Rightarrow> 'w prog" where
  "run drv =
     with_sync_playwright drv (block [
       api drv (Launch (Some True)),
       api drv NewPage,
       run_page drv])"

section \<open>Steps attempted\<close>

text \<open>
  The calls a program attempted are the entries it added to the trace. \<open>first_failure\<close>
  is the index of the first of them that raised. \<open>stops_at_first_failure steps s out\<close>
  says of a program that went from \<open>s\<close> to the outcome \<open>out\<close>: the calls attempted are an
  initial segment of \<open>steps\<close>, in order; when one of them raised, it is the last call
  attempted and its exception is the outcome; when none raised, all of \<open>steps\<close> were
  attempted and the program completed.
\<close>

fun first_failure :: "(call \<times> (exn + val)) list \<Rightarrow> nat option" where
  "first_failure [] = None"
| "first_failure ((c, Inl e) # t) = Some 0"
| "first_failure ((c, Inr v) # t) = map_option Suc (first_failure t)"

definition attempted :: "'w st \<Rightarrow> 'w st \<Rightarrow> (call \<times> (exn + val)) list" where
  "attempted s s' = drop (length (trace s)) (trace s')"

definition stops_at_first_failure ::
  "call list \<Rightarrow> 'w st \<Rightarrow> (exn + val) \<times> 'w st \<Rightarrow> bool" where
  "stops_at_first_failure steps s out =
     (let t = attempted s (snd out) in
        map fst t = take (length t) steps \<and>
        (case first_failure t of
           None \<Rightarrow> length t = length steps \<and> fst out = Inr VNone
         | Some i \<Rightarrow> length t = i + 1 \<and> fst out = snd (t ! i)))"

text \<open>The steps of the \<^verbatim>\<open>try\<close> blocks of \<^verbatim>\<open>verify_load\<close> and of \<^verbatim>\<open>run\<close>, in order.\<close>

definition load_steps :: "call list" where
  "load_steps =
     [Goto ''http://localhost:4173'', WaitForSelector ''#glCanvas'' (Some 10000), Sleep 2,
      Screenshot ''verification/screenshot.png'', Content]"

definition waterfall_steps :: "call list" where
  "waterfall_steps =
     [Goto ''http://localhost:4173'', WaitForSelector ''#glCanvas'' None,
      Click ''#instructions'' False, Evaluate waterfall_js, Sleep 2,
      Screenshot ''verification/level1.png'']"

text \<open>A call seen from outside: its result, the events delivered, the state it leaves.\<close>

definition api_res :: "'w driver \<Rightarrow> call \<Rightarrow> 'w st \<Rightarrow> exn + val" where
  "api_res drv c s = fst (drv c (world s))"

definition api_evs :: "'w driver \<Rightarrow> call \<Rightarrow> 'w st \<Rightarrow> event list" where
  "api_evs drv c s = fst (snd (drv c (world s)))"

definition api_st :: "'w driver \<Rightarrow> call \<Rightarrow> 'w st \<Rightarrow> 'w st" where
  "api_st drv c s = snd (api drv c s)"

section \<open>Concrete drivers\<close>

text \<open>
  Drivers over a world with one state, for evaluating the scripts. \<open>default_reply\<close> is
  what a call returns when it succeeds.
\<close>

fun default_reply :: "call \<Rightarrow> val" where
  "default_reply (IsVisible sel) = VBool True"
| "default_reply (Screenshot path) = VBytes ''PNG''"
| "default_reply Content = VStr ''<html></html>''"
| "default_reply (InnerText sel) = VStr ''Level 1''"
| "default_reply c = VNone"

text \<open>Nothing listens on port 4173: \<^verbatim>\<open>page.goto\<close> raises, every other call succeeds.\<close>

definition refusing :: "unit driver" where
  "refusing c w =
     (case c of
        Goto url \<Rightarrow> (Inl (Error ''net::ERR_CONNECTION_REFUSED''), [], w)
      | _ \<Rightarrow> (Inr (default_reply c), [], w))"

text \<open>
  The page loads and logs an error to the console, but \<^verbatim>\<open>#glCanvas\<close> never appears:
  \<^verbatim>\<open>page.wait_for_selector\<close> times out.
\<close>

definition timing_out :: "unit driver" where
  "timing_out c w =
     (case c of
        Goto url \<Rightarrow> (Inr VNone, [Console ''error'' ''boom''], w)
      | WaitForSelector sel ms \<Rightarrow> (Inl (TimeoutError ''Timeout 10000ms exceeded.''), [], w)
      | _ \<Rightarrow> (Inr (default_reply c), [], w))"

section \<open>What the listeners of \<^verbatim>\<open>verify_load\<close> keep\<close>

text \<open>
  \<open>load_listeners\<close> are the two listeners lines 12 and 13 of \<^verbatim>\<open>verify_load.py\<close>
  register. \<open>recorded evs\<close> is what they append to \<^verbatim>\<open>errors\<close> for the events
  \<open>evs\<close>: the text of a console message of type \<^verbatim>\<open>error\<close>, the message of a page
  error, nothing for any other console message.
\<close>

definition load_listeners :: "(string \<times> callback) list" where
  "load_listeners = [(''console'', AppendIfError), (''pageerror'', AppendExc)]"

fun recorded :: "event list \<Rightarrow> string list" where
  "recorded [] = []"
| "recorded (Console ty text # evs) = (if ty = ''error'' then text # recorded evs else recorded evs)"
| "recorded (PageError m # evs) = m # recorded evs"

text \<open>A property of the state that a program keeps.\<close>

definition maintains :: "('w st \<Rightarrow> bool) \<Rightarrow> 'w prog \<Rightarrow> bool" where
  "maintains I p = (\<forall>s. I s \<longrightarrow> I (snd (p s)))"

definition collects :: "string list \<Rightarrow> nat \<Rightarrow> 'w st \<Rightarrow> bool" where
  "collects base n s =
     (listeners s = load_listeners \<and> n \<le> length (emitted s) \<and>
      errors s = base @ recorded (drop n (emitted s)))"

text \<open>
  A page that logs to the console while it is created and while it loads, and then throws:
  every call succeeds.
\<close>

definition chatty :: "unit driver" where
  "chatty c w =
     (case c of
        NewPage \<Rightarrow> (Inr VNone, [Console ''error'' ''early''], w)
      | Goto url \<Rightarrow>
          (Inr VNone,
           [Console ''log'' ''hello'', Console ''error'' ''boom'', PageError ''crash''], w)
      | _ \<Rightarrow> (Inr (default_reply c), [], w))"

text \<open>Every call succeeds and a screenshot is the image \<open>img\<close>.\<close>

definition camera :: "string \<Rightarrow> unit driver" where
  "camera img c w =
     (case c of
        Screenshot path \<Rightarrow> (Inr (VBytes img), [], w)
      | _ \<Rightarrow> (Inr (default_reply c), [], w))"

section \<open>Files written by a run\<close>

text \<open>
  \<open>written c r fs\<close> is the file system after the call \<open>c\<close> answered \<open>r\<close>:
  only a \<^verbatim>\<open>page.screenshot\<close> that returned changes it. \<open>shot path t\<close> is the image
  returned by the last call \<^verbatim>\<open>page.screenshot(path=path)\<close> among the calls \<open>t\<close> that
  returned, if there is one.
\<close>

fun written ::
  "call \<Rightarrow> (exn + val) \<Rightarrow> (string \<Rightarrow> string option) \<Rightarrow> (string \<Rightarrow> string option)" where
  "written (Screenshot path) (Inr (VBytes img)) fs = fs(path \<mapsto> img)"
| "written c r fs = fs"

fun shot :: "string \<Rightarrow> (call \<times> (exn + val)) list \<Rightarrow> string option" where
  "shot path [] = None"
| "shot path ((c, r) # t) =
     (case shot path t of
        Some img \<Rightarrow> Some img
      | None \<Rightarrow>
          (case r of
             Inr (VBytes img) \<Rightarrow> if c = Screenshot path then Some img else None
           | _ \<Rightarrow> None))"

text \<open>The files are \<open>fs\<close> with the calls logged from position \<open>n\<close> on written to them.\<close>

definition records_files :: "(string \<Rightarrow> string option) \<Rightarrow> nat \<Rightarrow> 'w st \<Rightarrow> bool" where
  "records_files fs n s =
     (n \<le> length (trace s) \<and> files s = fold (\<lambda>(c, r). written c r) (drop n (trace s)) fs)"

text \<open>
  The directory cannot be written: \<^verbatim>\<open>page.screenshot\<close> raises when it writes its file,
  every other call succeeds.
\<close>

definition read_only :: "unit driver" where
  "read_only c w =
     (case c of
        Screenshot path \<Rightarrow> (Inl (OSError ''[Errno 13] Permission denied''), [], w)
      | _ \<Rightarrow> (Inr (default_reply c), [], w))"

section \<open>Leaving \<^verbatim>\<open>with sync_playwright()\<close>\<close>

text \<open>
  The six programs a run of a script executes, each from \<^verbatim>\<open>sync_playwright()\<close> on.
\<close>

definition scripts :: "'w driver \<Rightarrow> 'w prog list" where
  "scripts drv = [asteroid_main drv, horizon_main drv, level_2_main drv, verify_load drv,
     verify_reentry drv, run drv]"

text \<open>
  \<open>exits_scope t\<close> says of the calls \<open>t\<close> of a run: the first is the entry of
  \<^verbatim>\<open>sync_playwright()\<close>; when it raised nothing else was called, and when it returned the
  last call is the exit of \<^verbatim>\<open>sync_playwright()\<close>, so that every other call, the launch
  of the browser among them, lies between the two.
\<close>

definition exits_scope :: "(call \<times> (exn + val)) list \<Rightarrow> bool" where
  "exits_scope t =
     (case t of
        [] \<Rightarrow> False
      | (c, r) # rest \<Rightarrow>
          c = SyncPlaywrightStart \<and>
          (case r of
             Inl e \<Rightarrow> rest = []
           | Inr v \<Rightarrow> rest \<noteq> [] \<and> fst (last rest) = SyncPlaywrightStop))"

text \<open>
  What the exit of \<^verbatim>\<open>sync_playwright()\<close> does to the browser is Playwright's business,
  not the scripts': \<open>stop_releases drv running\<close> is the assumption that, whatever the exit
  answers, no browser is running in the world it leaves (\<open>running\<close> reads that off the
  world). Stopping Playwright ends its driver process, and the browsers it launched with it.
\<close>

definition stop_releases :: "'w driver \<Rightarrow> ('w \<Rightarrow> bool) \<Rightarrow> bool" where
  "stop_releases drv running = (\<forall>w. \<not> running (snd (snd (drv SyncPlaywrightStop w))))"

text \<open>The trace has grown from \<open>t0\<close>.\<close>

definition grown :: "(call \<times> (exn + val)) list \<Rightarrow> 'w st \<Rightarrow> bool" where
  "grown t0 s = (\<exists>u. trace s = t0 @ u)"

text \<open>
  A world that is the flag \<^emph>\<open>a browser is running\<close>: the launch sets it,
  \<^verbatim>\<open>browser.close()\<close> and the exit of \<^verbatim>\<open>sync_playwright()\<close> clear it. Nothing listens on
  port 4173, so \<^verbatim>\<open>page.goto\<close> raises.
\<close>

definition unreachable :: "bool driver" where
  "unreachable c running =
     (case c of
        Launch headless \<Rightarrow> (Inr VNone, [], True)
      | BrowserClose \<Rightarrow> (Inr VNone, [], False)
      | SyncPlaywrightStop \<Rightarrow> (Inr VNone, [], False)
      | Goto url \<Rightarrow> (Inl (Error ''net::ERR_CONNECTION_REFUSED''), [], running)
      | _ \<Rightarrow> (Inr (default_reply c), [], running))"

section \<open>A run with its events withheld\<close>




section \<open>The script \<^verbatim>\<open>verify_horizon\<close> evaluates in the page\<close>

text \<open>
  Line 22 of \<^verbatim>\<open>verify_horizon.py\<close> passes the JavaScript expression
  \<^verbatim>\<open>document.getElementById('instructions').click()\<close> to \<^verbatim>\<open>page.evaluate\<close>. What the
  expression does is modelled on a page that is a list of elements, each with its id and
  whether it is visible and whether another element covers it, together with the ids of the
  elements a click was dispatched to. \<^verbatim>\<open>getElementById\<close> is the first element with the id,
  or \<^verbatim>\<open>null\<close>; calling \<^verbatim>\<open>click\<close> on \<^verbatim>\<open>null\<close> throws a \<^verbatim>\<open>TypeError\<close>; calling it on an
  element dispatches the click and reads neither flag.
\<close>

record element =
  elem_id :: string
  elem_visible :: bool
  elem_obscured :: bool

record page =
  document :: "element list"
  clicked :: "string list"

definition getElementById :: "page \<Rightarrow> string \<Rightarrow> element option" where
  "getElementById pg i = find (\<lambda>el. elem_id el = i) (document pg)"





text \<open>A program that only adds calls to the trace, and ends with the exception of any call
  of its own that raised.\<close>

definition propagates :: "'w prog \<Rightarrow> bool" where
  "propagates p =
     (\<forall>s. \<exists>t. trace (snd (p s)) = trace s @ t \<and>
        (\<forall>c e. (c, Inl e) \<in> set t \<longrightarrow> fst (p s) = Inl e))"




section \<open>Basic facts\<close>

lemmas run_simps = with_sync_playwright_def bind_def try_finally_def try_except_def api_def
  py_print_def py_sleep_def page_on_def skip_def raise_def init_def dispatch_def
  horizon_session_def verify_load_guarded_def verify_load_page_def run_page_def

lemma api_pair: "api drv c s = (api_res drv c s, api_st drv c s)"
  by (simp add: api_def api_res_def api_st_def split: prod.splits)

lemma invoke_frame:
  "world (invoke cb ev s) = world s" "listeners (invoke cb ev s) = listeners s"
  "files (invoke cb ev s) = files s" "trace (invoke cb ev s) = trace s"
  "emitted (invoke cb ev s) = emitted s"
  by (cases cb; cases ev; simp)+

lemma fold_invoke_frame:
  "world (fold (\<lambda>(name, cb) s'. if name = n then invoke cb ev s' else s') ls s) = world s"
  "listeners (fold (\<lambda>(name, cb) s'. if name = n then invoke cb ev s' else s') ls s) = listeners s"
  "files (fold (\<lambda>(name, cb) s'. if name = n then invoke cb ev s' else s') ls s) = files s"
  "trace (fold (\<lambda>(name, cb) s'. if name = n then invoke cb ev s' else s') ls s) = trace s"
  "emitted (fold (\<lambda>(name, cb) s'. if name = n then invoke cb ev s' else s') ls s) = emitted s"
  by (induction ls arbitrary: s; simp add: invoke_frame split: prod.splits)+

lemma dispatch_frame [simp]:
  "world (dispatch ev s) = world s" "listeners (dispatch ev s) = listeners s"
  "files (dispatch ev s) = files s" "trace (dispatch ev s) = trace s"
  "emitted (dispatch ev s) = emitted s"
  by (simp_all add: dispatch_def fold_invoke_frame)

lemma fold_dispatch_frame [simp]:
  "world (fold dispatch evs s) = world s" "listeners (fold dispatch evs s) = listeners s"
  "files (fold dispatch evs s) = files s" "trace (fold dispatch evs s) = trace s"
  "emitted (fold dispatch evs s) = emitted s"
  by (induction evs arbitrary: s; simp)+

lemma write_file_frame [simp]:
  "world (write_file c r s) = world s" "listeners (write_file c r s) = listeners s"
  "errors (write_file c r s) = errors s" "stdout (write_file c r s) = stdout s"
  "trace (write_file c r s) = trace s" "emitted (write_file c r s) = emitted s"
  by (induction c r s rule: write_file.induct; simp)+

lemma api_st_trace [simp]: "trace (api_st drv c s) = trace s @ [(c, api_res drv c s)]"
  by (simp add: api_st_def api_res_def api_def split: prod.splits)

lemma api_st_listeners [simp]: "listeners (api_st drv c s) = listeners s"
  by (simp add: api_st_def api_def split: prod.splits)

lemma api_st_emitted [simp]: "emitted (api_st drv c s) = emitted s @ api_evs drv c s"
  by (simp add: api_st_def api_evs_def api_def split: prod.splits)

lemma api_st_world [simp]: "world (api_st drv c s) = snd (snd (drv c (world s)))"
  by (simp add: api_st_def api_def split: prod.splits)

lemma block_prints:
  "block (map (\<lambda>e. py_print (f e)) es) s = (Inr VNone, s\<lparr>stdout := stdout s @ map f es\<rparr>)"
  by (induction es arbitrary: s) (simp_all add: py_print_def)

lemma report_errors_eq:
  "report_errors s = (Inr VNone, s\<lparr>stdout := stdout s @
      (if errors s \<noteq> [] then ''Console Errors found:'' # map (\<lambda>e. ''- '' @ e) (errors s)
       else [''No console errors.''])\<rparr>)"
  by (simp add: report_errors_def block_prints py_print_def)

lemmas stmt_simps = bind_def py_print_def py_sleep_def skip_def raise_def page_on_def api_pair

subsection \<open>Invariants of statements\<close>

lemma maintains_block:
  "(\<And>p. p \<in> set ps \<Longrightarrow> maintains I p) \<Longrightarrow> maintains I (block ps)"
proof (induction ps)
  case Nil
  then show ?case by (simp add: maintains_def)
next
  case (Cons p ps)
  have p: "maintains I p" and ps: "maintains I (block ps)"
    using Cons by simp_all
  show ?case
    unfolding maintains_def
  proof (intro allI impI)
    fix s assume "I s"
    then have "I (snd (p s))" using p by (simp add: maintains_def)
    then show "I (snd (block (p # ps) s))"
      using ps by (cases "p s") (auto simp: maintains_def split: sum.splits)
  qed
qed

lemma maintains_bind:
  "maintains I p \<Longrightarrow> (\<And>v. maintains I (f v)) \<Longrightarrow> maintains I (bind p f)"
  unfolding maintains_def bind_def
  by (auto split: prod.splits sum.splits)

lemma maintains_try_finally:
  "maintains I p \<Longrightarrow> maintains I q \<Longrightarrow> maintains I (try_finally p q)"
  unfolding maintains_def try_finally_def
  by (auto split: prod.splits sum.splits)

lemma maintains_try_except:
  "maintains I p \<Longrightarrow> (\<And>e. maintains I (h e)) \<Longrightarrow> maintains I (try_except p h)"
  unfolding maintains_def try_except_def
  by (auto split: prod.splits sum.splits)

lemma maintains_with:
  "maintains I (api drv SyncPlaywrightStart) \<Longrightarrow> maintains I (api drv SyncPlaywrightStop) \<Longrightarrow>
   maintains I p \<Longrightarrow> maintains I (with_sync_playwright drv p)"
  by (simp add: with_sync_playwright_def maintains_bind maintains_try_finally)

lemma stdout_fold_invoke:
  "PrintConsole \<notin> snd ` set ls \<Longrightarrow>
   stdout (fold (\<lambda>(name, cb) s'. if name = n then invoke cb ev s' else s') ls s) = stdout s"
proof (induction ls arbitrary: s)
  case Nil
  then show ?case by simp
next
  case (Cons a ls)
  obtain name cb where a: "a = (name, cb)" by (cases a)
  have "cb \<noteq> PrintConsole" using Cons.prems a by auto
  then have "stdout (invoke cb ev s) = stdout s"
    by (cases cb; cases ev) simp_all
  then show ?case using Cons a by simp
qed

lemma stdout_dispatch:
  "PrintConsole \<notin> snd ` set (listeners s) \<Longrightarrow> stdout (dispatch ev s) = stdout s"
  by (simp add: dispatch_def stdout_fold_invoke)

lemma stdout_fold_dispatch:
  "PrintConsole \<notin> snd ` set (listeners s) \<Longrightarrow> stdout (fold dispatch evs s) = stdout s"
  by (induction evs arbitrary: s) (simp_all add: stdout_dispatch)

lemma api_st_stdout:
  "PrintConsole \<notin> snd ` set (listeners s) \<Longrightarrow> stdout (api_st drv c s) = stdout s"
  by (simp add: api_st_def api_def stdout_fold_dispatch split: prod.splits)

lemma errors_dispatch:
  "listeners s = load_listeners \<Longrightarrow> errors (dispatch ev s) = errors s @ recorded [ev]"
  by (cases ev) (simp_all add: dispatch_def load_listeners_def)

lemma recorded_append: "recorded (xs @ ys) = recorded xs @ recorded ys"
  by (induction xs rule: recorded.induct) simp_all

lemma errors_fold_dispatch:
  "listeners s = load_listeners \<Longrightarrow> errors (fold dispatch evs s) = errors s @ recorded evs"
proof (induction evs arbitrary: s)
  case Nil
  then show ?case by simp
next
  case (Cons ev evs)
  have "recorded (ev # evs) = recorded [ev] @ recorded evs"
    using recorded_append [of "[ev]" evs] by simp
  then show ?case using Cons by (simp add: errors_dispatch)
qed

lemma api_st_errors:
  "listeners s = load_listeners \<Longrightarrow>
   errors (api_st drv c s) = errors s @ recorded (api_evs drv c s)"
  by (simp add: api_st_def api_evs_def api_def errors_fold_dispatch split: prod.splits)

lemma write_file_files:
  "c \<noteq> Screenshot q \<Longrightarrow> files (write_file c r s) q = files s q"
  by (induction c r s rule: write_file.induct) auto

lemma api_st_files:
  "c \<noteq> Screenshot q \<Longrightarrow> files (api_st drv c s) q = files s q"
  by (simp add: api_st_def api_def write_file_files split: prod.splits)

lemma collects_api: "maintains (collects base n) (api drv c)"
  by (simp add: maintains_def collects_def api_pair api_st_errors recorded_append)

lemma collects_print: "maintains (collects base n) (py_print l)"
  by (simp add: maintains_def collects_def py_print_def)

lemma collects_sleep: "maintains (collects base n) (py_sleep k)"
  by (simp add: maintains_def collects_def py_sleep_def)

lemma collects_skip: "maintains (collects base n) skip"
  by (simp add: maintains_def skip_def)

lemma collects_raise: "maintains (collects base n) (raise e)"
  by (simp add: maintains_def raise_def)

lemma collects_report: "maintains (collects base n) report_errors"
  by (simp add: maintains_def collects_def report_errors_eq)

lemmas collects_rules = collects_api collects_print collects_sleep collects_skip collects_raise
  collects_report

lemma collects_verify_load_try: "maintains (collects base n) (verify_load_try drv)"
  unfolding verify_load_try_def
  by (auto intro!: maintains_block maintains_bind collects_rules)

lemma collects_verify_load_guarded: "maintains (collects base n) (verify_load_guarded drv)"
  unfolding verify_load_guarded_def verify_load_except_def
  by (auto intro!: maintains_try_finally maintains_try_except collects_verify_load_try
      maintains_block collects_rules)

lemma try_finally_state: "snd (try_finally p q s) = snd (q (snd (p s)))"
  by (simp add: try_finally_def split: prod.splits sum.splits)

lemma listeners_api: "maintains (\<lambda>s. listeners s = L) (api drv c)"
  by (simp add: maintains_def api_pair)

lemma listeners_print: "maintains (\<lambda>s. listeners s = L) (py_print l)"
  by (simp add: maintains_def py_print_def)

lemma listeners_sleep: "maintains (\<lambda>s. listeners s = L) (py_sleep k)"
  by (simp add: maintains_def py_sleep_def)

lemma listeners_run_try: "maintains (\<lambda>s. listeners s = L) (run_try drv)"
  unfolding run_try_def
  by (auto intro!: maintains_block listeners_api listeners_print listeners_sleep)

lemma files_api: "c \<noteq> Screenshot q \<Longrightarrow> maintains (\<lambda>s. files s q = x) (api drv c)"
  by (simp add: maintains_def api_pair api_st_files)

lemma files_print: "maintains (\<lambda>s. files s q = x) (py_print l)"
  by (simp add: maintains_def py_print_def)

lemma files_sleep: "maintains (\<lambda>s. files s q = x) (py_sleep k)"
  by (simp add: maintains_def py_sleep_def)

lemmas files_rules = maintains_with maintains_block maintains_bind maintains_try_finally
  maintains_try_except files_api files_print files_sleep

lemma api_st_files_shot:
  "files (api_st drv (Screenshot p) s) p =
     (case api_res drv (Screenshot p) s of Inr (VBytes img) \<Rightarrow> Some img | _ \<Rightarrow> files s p)"
  by (simp add: api_st_def api_res_def api_def split: prod.splits sum.splits val.splits)

text \<open>Facts for running a script on a given driver.\<close>

lemmas eval_simps = with_sync_playwright_def try_finally_def try_except_def stmt_simps
  api_res_def api_evs_def init_def horizon_session_def verify_load_guarded_def
  verify_load_page_def run_page_def api_st_errors api_st_stdout api_st_files api_st_files_shot
  load_listeners_def report_errors_eq

subsection \<open>Files and the calls that write them\<close>

lemma write_file_written: "files (write_file c r s) = written c r (files s)"
  by (induction c r s rule: write_file.induct) simp_all

lemma api_st_written: "files (api_st drv c s) = written c (api_res drv c s) (files s)"
  by (simp add: api_st_def api_res_def api_def write_file_written split: prod.splits)

lemma written_at:
  "written c r fs q =
     (case r of Inr (VBytes img) \<Rightarrow> if c = Screenshot q then Some img else fs q | _ \<Rightarrow> fs q)"
  by (cases "(c, r, fs)" rule: written.cases) (auto split: sum.splits val.splits)

lemma fold_written_shot:
  "fold (\<lambda>(c, r). written c r) t fs q = (case shot q t of Some img \<Rightarrow> Some img | None \<Rightarrow> fs q)"
proof (induction t arbitrary: fs)
  case Nil
  then show ?case by simp
next
  case (Cons x t)
  obtain c r where x: "x = (c, r)" by (cases x)
  show ?case
    using Cons [of "written c r fs"] x
    by (simp add: written_at split: option.splits sum.splits val.splits)
qed

lemma records_api: "maintains (records_files fs n) (api drv c)"
  by (simp add: maintains_def records_files_def api_pair api_st_written)

lemma records_print: "maintains (records_files fs n) (py_print l)"
  by (simp add: maintains_def records_files_def py_print_def)

lemma records_sleep: "maintains (records_files fs n) (py_sleep k)"
  by (simp add: maintains_def records_files_def py_sleep_def)

lemma records_page_on: "maintains (records_files fs n) (page_on name cb)"
  by (simp add: maintains_def records_files_def page_on_def)

lemma records_skip: "maintains (records_files fs n) skip"
  by (simp add: maintains_def skip_def)

lemma records_raise: "maintains (records_files fs n) (raise e)"
  by (simp add: maintains_def raise_def)

lemma records_reset: "maintains (records_files fs n) (\<lambda>s. (Inr VNone, s\<lparr>errors := []\<rparr>))"
  by (simp add: maintains_def records_files_def)

lemma records_report: "maintains (records_files fs n) report_errors"
  by (simp add: maintains_def records_files_def report_errors_eq)

lemmas records_rules = maintains_with maintains_block maintains_bind maintains_try_finally
  maintains_try_except records_api records_print records_sleep records_page_on records_skip
  records_raise records_reset records_report

lemma records_asteroid_main: "maintains (records_files fs n) (asteroid_main drv)"
  unfolding asteroid_main_def verify_asteroids_def
  by (auto intro!: records_rules)

lemma records_run: "maintains (records_files fs n) (run drv)"
  unfolding run_def run_page_def run_try_def
  by (auto intro!: records_rules)

lemma records_files_shot:
  assumes "maintains (records_files (files s) (length (trace s))) p"
  shows "files (snd (p s)) q =
     (case shot q (attempted s (snd (p s))) of Some img \<Rightarrow> Some img | None \<Rightarrow> files s q)"
proof -
  have "records_files (files s) (length (trace s)) s" by (simp add: records_files_def)
  then have "records_files (files s) (length (trace s)) (snd (p s))"
    using assms by (simp add: maintains_def)
  then show ?thesis by (simp add: records_files_def attempted_def fold_written_shot)
qed

subsection \<open>The trace only grows\<close>

lemma grown_api: "maintains (grown t0) (api drv c)"
  by (auto simp: maintains_def grown_def api_pair)

lemma grown_print: "maintains (grown t0) (py_print l)"
  by (simp add: maintains_def grown_def py_print_def)

lemma grown_sleep: "maintains (grown t0) (py_sleep k)"
  by (auto simp: maintains_def grown_def py_sleep_def)

lemma grown_page_on: "maintains (grown t0) (page_on name cb)"
  by (simp add: maintains_def grown_def page_on_def)

lemma grown_skip: "maintains (grown t0) skip"
  by (simp add: maintains_def skip_def)

lemma grown_raise: "maintains (grown t0) (raise e)"
  by (simp add: maintains_def raise_def)

lemma grown_reset: "maintains (grown t0) (\<lambda>s. (Inr VNone, s\<lparr>errors := []\<rparr>))"
  by (simp add: maintains_def grown_def)

lemma grown_report: "maintains (grown t0) report_errors"
  by (simp add: maintains_def grown_def report_errors_eq)

lemmas grown_rules = maintains_block maintains_bind maintains_try_finally
  maintains_try_except grown_api grown_print grown_sleep grown_page_on grown_skip
  grown_raise grown_reset grown_report

lemma with_exits_scope:
  assumes "\<And>t0. maintains (grown t0) body"
  shows "exits_scope (attempted s (snd (with_sync_playwright drv body s)))"
proof (cases "api_res drv SyncPlaywrightStart s")
  case (Inl e)
  then show ?thesis
    by (simp add: with_sync_playwright_def bind_def api_pair attempted_def exits_scope_def)
next
  case (Inr v)
  let ?s1 = "api_st drv SyncPlaywrightStart s"
  have "grown (trace ?s1) ?s1" by (simp add: grown_def)
  then have "grown (trace ?s1) (snd (body ?s1))"
    using assms by (simp add: maintains_def)
  then obtain u where u: "trace (snd (body ?s1)) = trace ?s1 @ u"
    by (auto simp: grown_def)
  have "snd (with_sync_playwright drv body s) = api_st drv SyncPlaywrightStop (snd (body ?s1))"
    using Inr by (simp add: with_sync_playwright_def bind_def api_pair try_finally_state)
  then show ?thesis
    using Inr u by (simp add: attempted_def exits_scope_def)
qed

lemma with_world:
  assumes "\<not> isl (api_res drv SyncPlaywrightStart s)"
  shows "\<exists>w. world (snd (with_sync_playwright drv body s)) =
           snd (snd (drv SyncPlaywrightStop w))"
proof (cases "api_res drv SyncPlaywrightStart s")
  case (Inl e)
  then show ?thesis using assms by simp
next
  case (Inr v)
  then have "snd (with_sync_playwright drv body s) =
      api_st drv SyncPlaywrightStop (snd (body (api_st drv SyncPlaywrightStart s)))"
    by (simp add: with_sync_playwright_def bind_def api_pair try_finally_state)
  then show ?thesis by auto
qed

lemma scripts_with:
  assumes "main \<in> set (scripts drv)"
  shows "\<exists>body. main = with_sync_playwright drv body \<and> (\<forall>t0. maintains (grown t0) body)"
proof -
  have "\<exists>body. asteroid_main drv = with_sync_playwright drv body \<and>
          (\<forall>t0. maintains (grown t0) body)"
    unfolding asteroid_main_def verify_asteroids_def
    by (intro exI conjI allI, rule refl) (auto intro!: grown_rules)
  moreover have "\<exists>body. horizon_main drv = with_sync_playwright drv body \<and>
          (\<forall>t0. maintains (grown t0) body)"
    unfolding horizon_main_def horizon_session_def verify_horizon_def verify_horizon_rest_def
    by (intro exI conjI allI, rule refl) (auto intro!: grown_rules)
  moreover have "\<exists>body. level_2_main drv = with_sync_playwright drv body \<and>
          (\<forall>t0. maintains (grown t0) body)"
    unfolding level_2_main_def verify_level_2_def
    by (intro exI conjI allI, rule refl) (auto intro!: grown_rules)
  moreover have "\<exists>body. verify_load drv = with_sync_playwright drv body \<and>
          (\<forall>t0. maintains (grown t0) body)"
    unfolding verify_load_def verify_load_page_def verify_load_guarded_def verify_load_try_def
      verify_load_except_def
    by (intro exI conjI allI, rule refl) (auto intro!: grown_rules)
  moreover have "\<exists>body. verify_reentry drv = with_sync_playwright drv body \<and>
          (\<forall>t0. maintains (grown t0) body)"
    unfolding verify_reentry_def
    by (intro exI conjI allI, rule refl) (auto intro!: grown_rules)
  moreover have "\<exists>body. run drv = with_sync_playwright drv body \<and>
          (\<forall>t0. maintains (grown t0) body)"
    unfolding run_def run_page_def run_try_def
    by (intro exI conjI allI, rule refl) (auto intro!: grown_rules)
  ultimately show ?thesis
    using assms by (auto simp: scripts_def)
qed

subsection \<open>Events do not steer a run\<close>


















subsection \<open>Exceptions that leave \<^verbatim>\<open>verify_horizon\<close>\<close>



lemma propagates_sleep: "propagates (py_sleep n)"
  by (simp add: propagates_def py_sleep_def)














section \<open>Steps stop at the first failure\<close>

lemma verify_load_try_stops: "stops_at_first_failure load_steps s (verify_load_try drv s)"
  apply (simp add: verify_load_try_def stmt_simps report_errors_eq split: sum.splits)
  apply (auto simp: stops_at_first_failure_def attempted_def load_steps_def)
  done

lemma run_try_stops: "stops_at_first_failure waterfall_steps s (run_try drv s)"
  apply (simp add: run_try_def stmt_simps split: sum.splits)
  apply (auto simp: stops_at_first_failure_def attempted_def waterfall_steps_def)
  done

text \<open>
  C3. In the \<^verbatim>\<open>try\<close> block of \<^verbatim>\<open>verify_load\<close> and in that of \<^verbatim>\<open>run\<close>
  (\<^verbatim>\<open>verify_waterfall.py\<close>), whatever the browser answers, the steps attempted are an
  initial segment of the block's steps; when a step fails, the number of steps attempted
  is the index of the first failing step plus one, so no later step is executed, and the
  block ends with that step's exception; when none fails, every step is attempted.
\<close>

theorem steps_stop_at_first_failure:
  "stops_at_first_failure load_steps s (verify_load_try drv s) \<and>
   stops_at_first_failure waterfall_steps s' (run_try drv' s')"
  by (simp add: verify_load_try_stops run_try_stops)

theorem steps_stop_at_first_failure_witness:
  "stops_at_first_failure load_steps (init () Map.empty)
     (verify_load_try refusing (init () Map.empty)) \<and>
   map fst (attempted (init () Map.empty) (snd (verify_load_try refusing (init () Map.empty))))
     = [Goto ''http://localhost:4173''] \<and>
   first_failure (attempted (init () Map.empty)
     (snd (verify_load_try refusing (init () Map.empty)))) = Some 0"
  using steps_stop_at_first_failure [of "init () Map.empty" refusing "init () Map.empty" refusing]
  by (simp add: verify_load_try_def refusing_def attempted_def run_simps)

section \<open>What happens to a failing step\<close>

text \<open>
  C2, as the claim states it, fails for \<^verbatim>\<open>verify_load\<close>: with nothing listening on the
  port, \<^verbatim>\<open>page.goto\<close> raises, the handler prints the message and calls
  \<^verbatim>\<open>sys.exit(1)\<close>, and the script ends with \<open>SystemExit 1\<close>: the step failure
  terminates the process.
\<close>

theorem verify_load_exits_on_step_failure:
  "fst (verify_load refusing (init () Map.empty)) = Inl (SystemExit 1)"
  by (simp add: verify_load_def verify_load_try_def verify_load_except_def refusing_def run_simps)

text \<open>
  C2, amended. When a step of \<^verbatim>\<open>verify_horizon\<close> raises an \<^verbatim>\<open>Exception\<close>, the
  \<^verbatim>\<open>try\<close> statement of the horizon script catches it, prints \<^verbatim>\<open>Error: ...\<close>, closes
  the browser and completes normally. When a step of \<^verbatim>\<open>verify_load\<close> raises an
  \<^verbatim>\<open>Exception\<close>, its \<^verbatim>\<open>try\<close> statement catches it, prints
  \<^verbatim>\<open>Verification failed: ...\<close>, and ends with \<open>SystemExit 1\<close> after closing the
  browser: the process is terminated on purpose. A failure of \<^verbatim>\<open>launch\<close> is outside
  every \<^verbatim>\<open>try\<close> and leaves both scripts.
\<close>

theorem step_failure_handling:
  "(verify_horizon drv s = (Inl e, s1) \<and> is_Exception e \<and>
    api_res drv BrowserClose (s1\<lparr>stdout := stdout s1 @ [''Error: '' @ str_exn e]\<rparr>) = Inr v
    \<longrightarrow> horizon_session drv s =
          (Inr VNone,
           api_st drv BrowserClose (s1\<lparr>stdout := stdout s1 @ [''Error: '' @ str_exn e]\<rparr>)))
   \<and>
   (verify_load_try drv s = (Inl e, s1) \<and> is_Exception e \<and>
    api_res drv BrowserClose
      (s1\<lparr>stdout := stdout s1 @ [''Verification failed: '' @ str_exn e]\<rparr>) = Inr v
    \<longrightarrow> verify_load_guarded drv s =
          (Inl (SystemExit 1),
           api_st drv BrowserClose
             (s1\<lparr>stdout := stdout s1 @ [''Verification failed: '' @ str_exn e]\<rparr>)))
   \<and>
   (api_res drv SyncPlaywrightStart s = Inr p \<and>
    api_res drv (Launch None) (api_st drv SyncPlaywrightStart s) = Inl e \<and>
    api_res drv SyncPlaywrightStop
      (api_st drv (Launch None) (api_st drv SyncPlaywrightStart s)) = Inr v
    \<longrightarrow> fst (horizon_main drv s) = Inl e)
   \<and>
   (api_res drv SyncPlaywrightStart s = Inr p \<and>
    api_res drv (Launch (Some True)) (api_st drv SyncPlaywrightStart s) = Inl e \<and>
    api_res drv SyncPlaywrightStop
      (api_st drv (Launch (Some True)) (api_st drv SyncPlaywrightStart s)) = Inr v
    \<longrightarrow> fst (verify_load drv s) = Inl e)"
  by (simp add: horizon_session_def verify_load_guarded_def verify_load_except_def
      horizon_main_def verify_load_def with_sync_playwright_def try_finally_def try_except_def
      stmt_simps)

theorem step_failure_handling_witness:
  "horizon_session refusing (init () Map.empty) =
     (Inr VNone,
      api_st refusing BrowserClose
        ((snd (verify_horizon refusing (init () Map.empty)))
           \<lparr>stdout := stdout (snd (verify_horizon refusing (init () Map.empty))) @
              [''Error: net::ERR_CONNECTION_REFUSED'']\<rparr>)) \<and>
   fst (verify_load_guarded refusing (init () Map.empty)) = Inl (SystemExit 1)"
  using
    step_failure_handling [where drv = refusing and s = "init () Map.empty"
      and e = "Error ''net::ERR_CONNECTION_REFUSED''"
      and ?s1.0 = "snd (verify_horizon refusing (init () Map.empty))" and v = VNone]
    step_failure_handling [where drv = refusing and s = "init () Map.empty"
      and e = "Error ''net::ERR_CONNECTION_REFUSED''"
      and ?s1.0 = "snd (verify_load_try refusing (init () Map.empty))" and v = VNone]
  by (simp add: verify_horizon_def verify_load_try_def refusing_def api_res_def run_simps)

section \<open>Console messages and page errors\<close>

text \<open>
  C5, as the claim states it, fails for \<^verbatim>\<open>verify_load\<close>. The page emits a console error
  while it is created, before the listeners are registered, and then, while it loads, a
  console message of type \<^verbatim>\<open>log\<close>, a console error and a page error. Of the three
  events emitted after the registration only two are in \<^verbatim>\<open>errors\<close> at the end: the
  \<^verbatim>\<open>log\<close> message is dropped, and what is kept is the bare text, with no severity.
\<close>

theorem verify_load_drops_console_log:
  "emitted (snd (verify_load chatty (init () Map.empty))) =
     [Console ''error'' ''early'', Console ''log'' ''hello'', Console ''error'' ''boom'',
      PageError ''crash''] \<and>
   errors (snd (verify_load chatty (init () Map.empty))) = [''boom'', ''crash'']"
  by (simp add: verify_load_def verify_load_try_def verify_load_except_def chatty_def eval_simps)

text \<open>
  C5, amended. From a page with no listener yet, lines 11 to 47 of \<^verbatim>\<open>verify_load\<close>
  leave in \<^verbatim>\<open>errors\<close> exactly what \<open>recorded\<close> keeps of the events delivered since
  the listeners were registered, in the order of delivery: the texts of the console
  messages of type \<^verbatim>\<open>error\<close> and the messages of the page errors. Console messages of
  other types are dropped, no severity is kept, and no event delivered before the
  registration appears.
\<close>

theorem errors_are_recorded_events:
  "listeners s = [] \<longrightarrow>
   errors (snd (verify_load_page drv s)) =
     recorded (drop (length (emitted s)) (emitted (snd (verify_load_page drv s))))"
proof
  assume l: "listeners s = []"
  let ?s0 = "s\<lparr>errors := [], listeners := load_listeners\<rparr>"
  have eq: "snd (verify_load_page drv s) = snd (verify_load_guarded drv ?s0)"
    using l by (simp add: verify_load_page_def page_on_def load_listeners_def split: prod.splits sum.splits)
  have "collects [] (length (emitted s)) ?s0"
    by (simp add: collects_def)
  then have "collects [] (length (emitted s)) (snd (verify_load_guarded drv ?s0))"
    using collects_verify_load_guarded [of "[]" "length (emitted s)" drv]
    by (simp add: maintains_def)
  then show "errors (snd (verify_load_page drv s)) =
     recorded (drop (length (emitted s)) (emitted (snd (verify_load_page drv s))))"
    by (simp add: eq collects_def)
qed

theorem errors_are_recorded_events_witness:
  "listeners (init () Map.empty :: unit st) = [] \<and>
   errors (snd (verify_load_page chatty (init () Map.empty))) =
     recorded (drop (length (emitted (init () Map.empty :: unit st)))
       (emitted (snd (verify_load_page chatty (init () Map.empty))))) \<and>
   errors (snd (verify_load_page chatty (init () Map.empty))) = [''boom'', ''crash'']"
  using errors_are_recorded_events [of "init () Map.empty" chatty]
  by (simp add: verify_load_try_def verify_load_except_def chatty_def eval_simps)

section \<open>What a failing run reports\<close>

text \<open>
  C6, as the claim states it, fails for \<^verbatim>\<open>verify_load\<close>. The page logs an error while
  it loads and \<^verbatim>\<open>#glCanvas\<close> never appears. The run prints the two progress lines and
  the failure message; the console error it collected is in \<^verbatim>\<open>errors\<close> and is never
  printed; no screenshot is attempted after the failure; no step index is recorded.
\<close>

theorem verify_load_failure_output:
  "stdout (snd (verify_load timing_out (init () Map.empty))) =
     [''Navigating to app...'', ''Waiting for canvas...'',
      ''Verification failed: Timeout 10000ms exceeded.''] \<and>
   errors (snd (verify_load timing_out (init () Map.empty))) = [''boom''] \<and>
   map fst (trace (snd (verify_load timing_out (init () Map.empty)))) =
     [SyncPlaywrightStart, Launch (Some True), NewPage, Goto ''http://localhost:4173'',
      WaitForSelector ''#glCanvas'' (Some 10000), BrowserClose, SyncPlaywrightStop]"
  by (simp add: verify_load_def verify_load_try_def verify_load_except_def timing_out_def
      eval_simps)

text \<open>
  C6, amended. When a step of the \<^verbatim>\<open>try\<close> block fails with an \<^verbatim>\<open>Exception\<close>, the
  load script prints one line, \<^verbatim>\<open>Verification failed: \<close> followed by the exception's
  message, and the waterfall script one line, \<^verbatim>\<open>Error: \<close> followed by the message; the
  only call either makes after the failure is \<^verbatim>\<open>browser.close()\<close>. Nothing else is
  printed (the collected \<^verbatim>\<open>errors\<close> are not), no screenshot is attempted and no step
  index is recorded.
\<close>

theorem failure_prints_only_the_message:
  "(listeners s = load_listeners \<and> verify_load_try drv s = (Inl e, s1) \<and> is_Exception e \<longrightarrow>
      stdout (snd (verify_load_guarded drv s)) =
        stdout s1 @ [''Verification failed: '' @ str_exn e] \<and>
      map fst (attempted s1 (snd (verify_load_guarded drv s))) = [BrowserClose])
   \<and>
   (listeners s' = [] \<and> run_try drv s' = (Inl e', s1') \<and> is_Exception e' \<longrightarrow>
      stdout (snd (run_page drv s')) = stdout s1' @ [''Error: '' @ str_exn e'] \<and>
      map fst (attempted s1' (snd (run_page drv s'))) = [BrowserClose])"
proof (intro conjI impI)
  assume a: "listeners s = load_listeners \<and> verify_load_try drv s = (Inl e, s1) \<and> is_Exception e"
  have "collects (errors s) (length (emitted s)) s"
    using a by (simp add: collects_def)
  then have "collects (errors s) (length (emitted s)) (snd (verify_load_try drv s))"
    using collects_verify_load_try [of "errors s" "length (emitted s)" drv]
    by (simp add: maintains_def)
  then have l1: "listeners s1 = load_listeners"
    using a by (simp add: collects_def)
  have st: "snd (verify_load_guarded drv s) =
      api_st drv BrowserClose (s1\<lparr>stdout := stdout s1 @ [''Verification failed: '' @ str_exn e]\<rparr>)"
    using a by (simp add: verify_load_guarded_def try_finally_state try_except_def
        verify_load_except_def stmt_simps)
  show "stdout (snd (verify_load_guarded drv s)) =
        stdout s1 @ [''Verification failed: '' @ str_exn e]"
    using l1 by (simp add: st api_st_stdout load_listeners_def)
  show "map fst (attempted s1 (snd (verify_load_guarded drv s))) = [BrowserClose]"
    by (simp add: st attempted_def)
next
  assume a: "listeners s' = [] \<and> run_try drv s' = (Inl e', s1') \<and> is_Exception e'"
  have "listeners (snd (run_try drv s')) = []"
    using a listeners_run_try [of "[]" drv] by (auto simp: maintains_def)
  then have l1: "listeners s1' = []" using a by simp
  have st: "snd (run_page drv s') =
      api_st drv BrowserClose (s1'\<lparr>stdout := stdout s1' @ [''Error: '' @ str_exn e']\<rparr>)"
    using a by (simp add: run_page_def try_except_def stmt_simps split: sum.splits)
  show "stdout (snd (run_page drv s')) = stdout s1' @ [''Error: '' @ str_exn e']"
    using l1 by (simp add: st api_st_stdout)
  show "map fst (attempted s1' (snd (run_page drv s'))) = [BrowserClose]"
    by (simp add: st attempted_def)
qed

theorem failure_prints_only_the_message_witness:
  "stdout (snd (verify_load_guarded timing_out
       ((init () Map.empty)\<lparr>listeners := load_listeners\<rparr>))) =
     [''Navigating to app...'', ''Waiting for canvas...'',
      ''Verification failed: Timeout 10000ms exceeded.''] \<and>
   stdout (snd (run_page refusing (init () Map.empty))) =
     [''Error: net::ERR_CONNECTION_REFUSED'']"
  using failure_prints_only_the_message [where drv = timing_out
      and s = "(init () Map.empty)\<lparr>listeners := load_listeners\<rparr>"
      and e = "TimeoutError ''Timeout 10000ms exceeded.''"
      and ?s1.0 = "snd (verify_load_try timing_out
         ((init () Map.empty)\<lparr>listeners := load_listeners\<rparr>))"
      and s' = "(init () Map.empty)\<lparr>listeners := load_listeners\<rparr>"
      and e' = KeyboardInterrupt]
    failure_prints_only_the_message [where drv = refusing
      and s = "init () Map.empty" and e = KeyboardInterrupt
      and s' = "init () Map.empty"
      and e' = "Error ''net::ERR_CONNECTION_REFUSED''"
      and ?s1'.0 = "snd (run_try refusing (init () Map.empty))"]
  by (simp add: verify_load_try_def run_try_def timing_out_def refusing_def eval_simps)

section \<open>Screenshot files\<close>

text \<open>
  C9, as the claim states it, fails. \<^verbatim>\<open>verify_asteroid.py\<close> and
  \<^verbatim>\<open>verify_waterfall.py\<close> both write to the path \<^verbatim>\<open>verification/level1.png\<close>, fixed
  in the source: a run of the first leaves its image there, and a later run of the second
  replaces it. No configuration is involved.
\<close>

theorem level1_png_overwritten:
  "files (snd (asteroid_main (camera ''A'') (init () Map.empty))) ''verification/level1.png''
     = Some ''A'' \<and>
   files (snd (run (camera ''B'')
       (init () (files (snd (asteroid_main (camera ''A'') (init () Map.empty)))))))
     ''verification/level1.png'' = Some ''B''"
  by (simp add: asteroid_main_def verify_asteroids_def run_def run_try_def camera_def eval_simps)

text \<open>
  C9, amended. After a run of the asteroid script, and after a run of the waterfall script,
  the file at a path holds the image of the run's last call \<^verbatim>\<open>page.screenshot\<close> to that
  path that returned, whatever was there before, and is as it was when no such call returned
  (the call was not reached, or it raised). The scripts take their screenshot at the fixed
  path \<^verbatim>\<open>verification/level1.png\<close>: the file at any other path is unchanged.
\<close>

theorem screenshot_replaces_file_at_path:
  "files (snd (asteroid_main drv s)) q =
     (case shot q (attempted s (snd (asteroid_main drv s))) of
        Some img \<Rightarrow> Some img | None \<Rightarrow> files s q) \<and>
   files (snd (run drv s)) q =
     (case shot q (attempted s (snd (run drv s))) of
        Some img \<Rightarrow> Some img | None \<Rightarrow> files s q) \<and>
   (q \<noteq> ''verification/level1.png'' \<longrightarrow>
      files (snd (asteroid_main drv s)) q = files s q \<and> files (snd (run drv s)) q = files s q)"
proof (intro conjI impI)
  show "files (snd (asteroid_main drv s)) q =
     (case shot q (attempted s (snd (asteroid_main drv s))) of
        Some img \<Rightarrow> Some img | None \<Rightarrow> files s q)"
    using records_asteroid_main by (rule records_files_shot)
  show "files (snd (run drv s)) q =
     (case shot q (attempted s (snd (run drv s))) of
        Some img \<Rightarrow> Some img | None \<Rightarrow> files s q)"
    using records_run by (rule records_files_shot)
next
  assume q: "q \<noteq> ''verification/level1.png''"
  have "maintains (\<lambda>s'. files s' q = files s q) (asteroid_main drv)"
    unfolding asteroid_main_def verify_asteroids_def
    using q by (auto intro!: files_rules)
  then show "files (snd (asteroid_main drv s)) q = files s q"
    by (simp add: maintains_def)
  have "maintains (\<lambda>s'. files s' q = files s q) (run drv)"
    unfolding run_def run_page_def run_try_def
    using q by (auto intro!: files_rules)
  then show "files (snd (run drv s)) q = files s q"
    by (simp add: maintains_def)
qed

text \<open>
  The waterfall script run where a previous run left the image \<open>A\<close>: the screenshot
  returns \<open>B\<close> and the file is \<open>B\<close>, another file is untouched. The asteroid script run
  where the file cannot be written: the screenshot raises and the file is still \<open>A\<close>.
\<close>

theorem screenshot_replaces_file_at_path_witness:
  "files (snd (run (camera ''B'') (init () [''verification/level1.png'' \<mapsto> ''A'',
       ''other.png'' \<mapsto> ''X''])))
     ''verification/level1.png'' = Some ''B'' \<and>
   shot ''verification/level1.png''
     (attempted (init () [''verification/level1.png'' \<mapsto> ''A'', ''other.png'' \<mapsto> ''X''])
        (snd (run (camera ''B'') (init () [''verification/level1.png'' \<mapsto> ''A'',
           ''other.png'' \<mapsto> ''X''])))) = Some ''B'' \<and>
   ''other.png'' \<noteq> ''verification/level1.png'' \<and>
   files (snd (run (camera ''B'') (init () [''verification/level1.png'' \<mapsto> ''A'',
       ''other.png'' \<mapsto> ''X''])))
     ''other.png'' = Some ''X'' \<and>
   fst (asteroid_main read_only (init () [''verification/level1.png'' \<mapsto> ''A''])) =
     Inl (OSError ''[Errno 13] Permission denied'') \<and>
   files (snd (asteroid_main read_only (init () [''verification/level1.png'' \<mapsto> ''A''])))
     ''verification/level1.png'' = Some ''A'' \<and>
   shot ''verification/level1.png''
     (attempted (init () [''verification/level1.png'' \<mapsto> ''A''])
        (snd (asteroid_main read_only (init () [''verification/level1.png'' \<mapsto> ''A''])))) = None"
  using screenshot_replaces_file_at_path [of "camera ''B''"
      "init () [''verification/level1.png'' \<mapsto> ''A'', ''other.png'' \<mapsto> ''X'']"
      "''verification/level1.png''"]
    screenshot_replaces_file_at_path [of "camera ''B''"
      "init () [''verification/level1.png'' \<mapsto> ''A'', ''other.png'' \<mapsto> ''X'']"
      "''other.png''"]
    screenshot_replaces_file_at_path [of read_only
      "init () [''verification/level1.png'' \<mapsto> ''A'']" "''verification/level1.png''"]
  by (simp add: asteroid_main_def verify_asteroids_def run_def run_try_def camera_def
      read_only_def attempted_def eval_simps)

section \<open>Page errors during a run\<close>



section \<open>The click of \<^verbatim>\<open>verify_horizon\<close>\<close>



section \<open>Release of the browser\<close>

text \<open>
  C1 (the browser a run launched is released on every exit path). Every script launches
  its browser inside \<^verbatim>\<open>with sync_playwright()\<close>. For each of the six scripts, every driver
  and every state: once \<^verbatim>\<open>sync_playwright()\<close> has been entered, the last call of the run is
  its exit, however the block was left, so the launch and every step lie before it; and
  where that exit leaves no browser running, none is running when the run ends. The call
  \<^verbatim>\<open>browser.close()\<close> itself is not made on every path: \<^verbatim>\<open>verify_reentry\<close> has it as
  the last statement of the block, the other scripts after the page was created.
\<close>

theorem browser_released_on_every_exit:
  "list_all (\<lambda>main.
       exits_scope (attempted s (snd (main s))) \<and>
       (stop_releases drv running \<and> \<not> isl (api_res drv SyncPlaywrightStart s) \<longrightarrow>
          \<not> running (world (snd (main s)))))
     (scripts drv)"
  unfolding list_all_iff
proof (intro ballI conjI impI)
  fix main assume m: "main \<in> set (scripts drv)"
  from scripts_with [OF m] obtain body where
    b: "main = with_sync_playwright drv body" "\<forall>t0. maintains (grown t0) body"
    by auto
  show "exits_scope (attempted s (snd (main s)))"
    using b with_exits_scope [of body s drv] by simp
  assume "stop_releases drv running \<and> \<not> isl (api_res drv SyncPlaywrightStart s)"
  then show "\<not> running (world (snd (main s)))"
    using b(1) with_world [of drv s body] by (auto simp: stop_releases_def)
qed

text \<open>
  \<^verbatim>\<open>verify_reentry\<close> when nothing listens on port 4173: \<^verbatim>\<open>page.goto\<close> raises after the
  launch, \<^verbatim>\<open>browser.close()\<close> is skipped, the exit of \<^verbatim>\<open>sync_playwright()\<close> is the last
  call and no browser is running afterwards.
\<close>

theorem browser_released_on_every_exit_witness:
  "stop_releases unreachable (\<lambda>w. w) \<and>
   \<not> isl (api_res unreachable SyncPlaywrightStart (init False Map.empty)) \<and>
   fst (verify_reentry unreachable (init False Map.empty)) =
     Inl (Error ''net::ERR_CONNECTION_REFUSED'') \<and>
   map fst (attempted (init False Map.empty)
              (snd (verify_reentry unreachable (init False Map.empty)))) =
     [SyncPlaywrightStart, Launch (Some True), NewContext, NewPage,
      Goto ''http://localhost:4173'', SyncPlaywrightStop] \<and>
   exits_scope (attempted (init False Map.empty)
                  (snd (verify_reentry unreachable (init False Map.empty)))) \<and>
   \<not> world (snd (verify_reentry unreachable (init False Map.empty)))"
  using browser_released_on_every_exit [of "init False Map.empty" unreachable "\<lambda>w. w"]
  by (simp add: scripts_def verify_reentry_def unreachable_def stop_releases_def attempted_def
      exits_scope_def eval_simps)

end
